theory Spec2Isabelle
  imports Main "HOL-Library.AList" "HOL-Library.Sublist" "HOL-Library.Word"
begin

section \<open>Python values and exceptions\<close>

text \<open>
  The data classes of \<^verbatim>\<open>models.py\<close> carry type annotations that Python does not
  enforce: the parser hands whatever the JSON decoder produced to the fields of
  \<^verbatim>\<open>CareerInfo\<close>, and \<^verbatim>\<open>__post_init__\<close> itself asks \<^verbatim>\<open>isinstance(self.pros, list)\<close>.
  A field is therefore a dynamically typed value. Text is ASCII text, one \<open>char\<close> per
  character; a float is its IEEE-754 binary64 bit pattern (the code never computes
  with one, it only tests truthiness); a dictionary with string keys is an association
  list, looked up with \<open>map_of\<close>.
\<close>

datatype pyval =
    PNone
  | PBool bool
  | PInt int
  | PFloat "64 word"
  | PStr string
  | PList "pyval list"
  | PDict "(string \<times> pyval) list"

text \<open>
  Exceptions, with the text \<^verbatim>\<open>str(e)\<close> gives. \<open>ValueError\<close> is the class the source
  raises itself; the others are raised by the interpreter (their texts follow CPython
  3.12) or stand for any failure of a backend (\<open>Exception\<close>).
\<close>

datatype exn =
    ValueError string
  | TypeError string
  | AttributeError string
  | KeyError string
  | Exception string

fun exn_str :: "exn \<Rightarrow> string" where
  "exn_str (ValueError m) = m"
| "exn_str (TypeError m) = m"
| "exn_str (AttributeError m) = m"
| "exn_str (KeyError k) = [CHR 0x27] @ k @ [CHR 0x27]"
| "exn_str (Exception m) = m"

text \<open>\<^verbatim>\<open>type(v).__name__\<close> and the text of \<^verbatim>\<open>type(v)\<close> inside an f-string.\<close>

fun type_name :: "pyval \<Rightarrow> string" where
  "type_name PNone = ''NoneType''"
| "type_name (PBool b) = ''bool''"
| "type_name (PInt i) = ''int''"
| "type_name (PFloat w) = ''float''"
| "type_name (PStr s) = ''str''"
| "type_name (PList xs) = ''list''"
| "type_name (PDict kvs) = ''dict''"

definition type_repr :: "pyval \<Rightarrow> string" where
  "type_repr v = ''<class '' @ [CHR 0x27] @ type_name v @ [CHR 0x27] @ ''>''"

text \<open>Truthiness, as \<^verbatim>\<open>not v\<close> tests it. Both float zeros are falsy.\<close>

fun truthy :: "pyval \<Rightarrow> bool" where
  "truthy PNone = False"
| "truthy (PBool b) = b"
| "truthy (PInt i) = (i \<noteq> 0)"
| "truthy (PFloat w) = (push_bit 1 w \<noteq> 0)"
| "truthy (PStr s) = (s \<noteq> [])"
| "truthy (PList xs) = (xs \<noteq> [])"
| "truthy (PDict kvs) = (kvs \<noteq> [])"

section \<open>String operations\<close>

text \<open>
  \<^verbatim>\<open>str.isspace\<close> on ASCII: tab, line feed, vertical tab, form feed, carriage
  return, the four separators 0x1C..0x1F and the space. The same set is what
  \<^verbatim>\<open>\s\<close> matches in a \<^verbatim>\<open>str\<close> pattern.
\<close>

definition whitespace :: "char list" where
  "whitespace = [CHR 0x09, CHR 0x0A, CHR 0x0B, CHR 0x0C, CHR 0x0D,
                 CHR 0x1C, CHR 0x1D, CHR 0x1E, CHR 0x1F, CHR 0x20]"

definition is_space :: "char \<Rightarrow> bool" where
  "is_space c = (c \<in> set whitespace)"

definition strip :: "string \<Rightarrow> string" where
  "strip s = rev (dropWhile is_space (rev (dropWhile is_space s)))"

definition upper_letters :: "char list" where
  "upper_letters = ''ABCDEFGHIJKLMNOPQRSTUVWXYZ''"

definition lower_letters :: "char list" where
  "lower_letters = ''abcdefghijklmnopqrstuvwxyz''"

definition digits :: "char list" where
  "digits = ''0123456789''"

definition lower_char :: "char \<Rightarrow> char" where
  "lower_char c = (case map_of (zip upper_letters lower_letters) c of
                     Some l \<Rightarrow> l | None \<Rightarrow> c)"

definition lower :: "string \<Rightarrow> string" where
  "lower s = map lower_char s"

definition startswith :: "string \<Rightarrow> string \<Rightarrow> bool" where
  "startswith s p = (take (length p) s = p)"

definition endswith :: "string \<Rightarrow> string \<Rightarrow> bool" where
  "endswith s p = (length p \<le> length s \<and> drop (length s - length p) s = p)"

text \<open>\<^verbatim>\<open>s[:-n]\<close> for a positive literal \<open>n\<close>.\<close>

definition drop_last :: "nat \<Rightarrow> string \<Rightarrow> string" where
  "drop_last n s = take (length s - n) s"

text \<open>\<^verbatim>\<open>str(n)\<close> for a length.\<close>

fun str_nat :: "nat \<Rightarrow> string" where
  "str_nat n = (if n < 10 then [digits ! n] else str_nat (n div 10) @ [digits ! (n mod 10)])"

text \<open>
  \<^verbatim>\<open>repr\<close> of a string and of a list of strings. The source only prints lists of its
  own field names this way, for which the single-quoted form is exact.
\<close>

definition repr_str :: "string \<Rightarrow> string" where
  "repr_str s = [CHR 0x27] @ s @ [CHR 0x27]"

fun join_comma :: "string list \<Rightarrow> string" where
  "join_comma [] = []"
| "join_comma [x] = x"
| "join_comma (x # y # ys) = x @ '', '' @ join_comma (y # ys)"

definition repr_list :: "string list \<Rightarrow> string" where
  "repr_list xs = ''['' @ join_comma (map repr_str xs) @ '']''"

section \<open>Regular expressions as \<^verbatim>\<open>re.search\<close> uses them\<close>

text \<open>
  The constructs the salary patterns use. A cursor is the character before the
  current position (if any) and the text still to be read; \<open>rmatch r\<close> lists the
  cursors at which a match of \<open>r\<close> starting at the given cursor can end.
  \<^verbatim>\<open>re.search\<close> is truthy exactly when some start position has a match.
\<close>

datatype regex =
    Lit string
  | OneOf "char list"
  | Space
  | Boundary
  | Seq regex regex
  | Alt regex regex
  | Opt regex
  | Star regex

type_synonym cursor = "char option \<times> string"

definition word_chars :: "char list" where
  "word_chars = lower_letters @ upper_letters @ digits @ ''_''"

definition word_before :: "cursor \<Rightarrow> bool" where
  "word_before cu = (case fst cu of None \<Rightarrow> False | Some c \<Rightarrow> c \<in> set word_chars)"

definition word_after :: "cursor \<Rightarrow> bool" where
  "word_after cu = (case snd cu of [] \<Rightarrow> False | c # cs \<Rightarrow> c \<in> set word_chars)"

definition step_char :: "(char \<Rightarrow> bool) \<Rightarrow> cursor \<Rightarrow> cursor list" where
  "step_char P cu = (case snd cu of [] \<Rightarrow> []
                     | c # cs \<Rightarrow> if P c then [(Some c, cs)] else [])"

fun match_lit :: "string \<Rightarrow> cursor \<Rightarrow> cursor list" where
  "match_lit [] cu = [cu]"
| "match_lit (x # xs) cu = concat (map (match_lit xs) (step_char (\<lambda>c. c = x) cu))"

text \<open>
  Repetition: every round must consume a character, so as many rounds as there
  are characters left reach every end position.
\<close>

fun star_loop :: "(cursor \<Rightarrow> cursor list) \<Rightarrow> nat \<Rightarrow> cursor list \<Rightarrow> cursor list" where
  "star_loop f 0 cus = cus"
| "star_loop f (Suc n) cus =
     cus @ star_loop f n
       (concat (map (\<lambda>cu. filter (\<lambda>cu'. length (snd cu') < length (snd cu)) (f cu)) cus))"

primrec rmatch :: "regex \<Rightarrow> cursor \<Rightarrow> cursor list" where
  "rmatch (Lit s) = match_lit s"
| "rmatch (OneOf cs) = step_char (\<lambda>c. c \<in> set cs)"
| "rmatch Space = step_char is_space"
| "rmatch Boundary = (\<lambda>cu. if word_before cu \<noteq> word_after cu then [cu] else [])"
| "rmatch (Seq a b) = (\<lambda>cu. concat (map (rmatch b) (rmatch a cu)))"
| "rmatch (Alt a b) = (\<lambda>cu. rmatch a cu @ rmatch b cu)"
| "rmatch (Opt a) = (\<lambda>cu. rmatch a cu @ [cu])"
| "rmatch (Star a) = (\<lambda>cu. star_loop (rmatch a) (length (snd cu)) [cu])"

fun search_from :: "regex \<Rightarrow> char option \<Rightarrow> string \<Rightarrow> bool" where
  "search_from r p [] = (rmatch r (p, []) \<noteq> [])"
| "search_from r p (c # cs) = (rmatch r (p, c # cs) \<noteq> [] \<or> search_from r (Some c) cs)"

definition re_search :: "regex \<Rightarrow> string \<Rightarrow> bool" where
  "re_search r s = search_from r None s"

definition seqs :: "regex list \<Rightarrow> regex" where
  "seqs rs = foldr Seq rs (Lit [])"

fun alts :: "string list \<Rightarrow> regex" where
  "alts [] = OneOf []"
| "alts [w] = Lit w"
| "alts (w # ws) = Alt (Lit w) (alts ws)"

definition Plus :: "regex \<Rightarrow> regex" where
  "Plus r = Seq r (Star r)"

section \<open>The salary normalizer\<close>

text \<open>The three pattern lists of \<^verbatim>\<open>standardize_salary\<close>, in the source's order.\<close>

definition low_patterns :: "regex list" where
  "low_patterns =
    [ seqs [Boundary,
            alts [''low'', ''poor'', ''minimal'', ''entry'', ''junior'', ''starting'', ''below'', ''under''],
            Boundary],
      seqs [Opt (Lit ''$''), Plus (OneOf (digits @ '','')), Star Space, Opt (Lit ''-''), Star Space,
            Opt (Lit ''$''), OneOf ''012345'', OneOf digits, Opt (Lit '',''), Lit ''000''],
      seqs [Boundary, OneOf ''012345'', OneOf digits, Opt (Lit ''k''), Boundary] ]"

definition high_patterns :: "regex list" where
  "high_patterns =
    [ seqs [Boundary,
            alts [''high'', ''excellent'', ''premium'', ''senior'', ''executive'', ''above'', ''over'', ''top''],
            Boundary],
      seqs [Opt (Lit ''$''), OneOf ''123456789'', OneOf digits, OneOf digits, Opt (Lit '',''), Lit ''000''],
      seqs [Boundary, OneOf ''123456789'', OneOf digits, OneOf digits, Opt (Lit ''k''), Boundary],
      seqs [OneOf ''89'', OneOf digits, Opt (Lit '',''), Lit ''000''],
      seqs [Boundary, OneOf ''89'', OneOf digits, Lit ''k'', Boundary] ]"

definition medium_patterns :: "regex list" where
  "medium_patterns =
    [ seqs [Boundary,
            alts [''medium'', ''average'', ''moderate'', ''mid'', ''middle'', ''fair'', ''decent'', ''competitive''],
            Boundary],
      seqs [Opt (Lit ''$''), OneOf ''6789'', OneOf digits, Opt (Lit '',''), Lit ''000''],
      seqs [Boundary, OneOf ''6789'', OneOf digits, Opt (Lit ''k''), Boundary] ]"

text \<open>One \<^verbatim>\<open>for pattern in patterns: if re.search(pattern, s): return ...\<close> loop.\<close>

fun any_match :: "regex list \<Rightarrow> string \<Rightarrow> bool" where
  "any_match [] s = False"
| "any_match (p # ps) s = (if re_search p s then True else any_match ps s)"

text \<open>
  The inner function \<^verbatim>\<open>standardize_salary\<close>. On a value that is truthy and not a
  string, \<^verbatim>\<open>salary_str.lower()\<close> raises \<^verbatim>\<open>AttributeError\<close>.
\<close>

definition tiers :: "string list" where
  "tiers = [''low'', ''medium'', ''high'']"

definition no_attribute :: "pyval \<Rightarrow> string \<Rightarrow> exn" where
  "no_attribute v a =
     AttributeError ([CHR 0x27] @ type_name v @ [CHR 0x27] @ '' object has no attribute ''
                     @ [CHR 0x27] @ a @ [CHR 0x27])"

definition classify :: "string \<Rightarrow> string" where
  "classify salary_lower =
     (if salary_lower \<in> set tiers then salary_lower
      else if any_match low_patterns salary_lower then ''low''
      else if any_match high_patterns salary_lower then ''high''
      else if any_match medium_patterns salary_lower then ''medium''
      else ''medium'')"

definition standardize_salary :: "pyval \<Rightarrow> exn + string" where
  "standardize_salary salary_str =
     (if \<not> truthy salary_str then Inr ''medium''
      else case salary_str of
             PStr s \<Rightarrow> Inr (classify (strip (lower s)))
           | _ \<Rightarrow> Inl (no_attribute salary_str ''lower''))"

section \<open>The data model (\<^verbatim>\<open>models.py\<close>)\<close>

record CareerInfo =
  overview :: pyval
  skills :: pyval
  salary :: pyval
  time_to_enter :: pyval
  pros :: pyval
  cons :: pyval

record ComparisonResult =
  career_a :: CareerInfo
  career_b :: CareerInfo
  decision_guide :: pyval

text \<open>\<^verbatim>\<open>isinstance(v, list) and len(v) == n\<close> and \<^verbatim>\<open>... and len(v) >= n\<close>.\<close>

fun list_of_len :: "nat \<Rightarrow> pyval \<Rightarrow> bool" where
  "list_of_len n (PList xs) = (length xs = n)"
| "list_of_len n v = False"

fun list_of_min_len :: "nat \<Rightarrow> pyval \<Rightarrow> bool" where
  "list_of_min_len n (PList xs) = (n \<le> length xs)"
| "list_of_min_len n v = False"

text \<open>
  Construction: the generated \<^verbatim>\<open>__init__\<close> stores the six arguments and runs
  \<^verbatim>\<open>__post_init__\<close>.
\<close>

definition CareerInfo_init ::
  "pyval \<Rightarrow> pyval \<Rightarrow> pyval \<Rightarrow> pyval \<Rightarrow> pyval \<Rightarrow> pyval \<Rightarrow> exn + CareerInfo" where
  "CareerInfo_init ov sk sa tte pr co =
     (if \<not> list_of_len 3 pr then Inl (ValueError ''Pros must be a list with exactly 3 items'')
      else if \<not> list_of_len 3 co then Inl (ValueError ''Cons must be a list with exactly 3 items'')
      else Inr \<lparr>overview = ov, skills = sk, salary = sa, time_to_enter = tte, pros = pr, cons = co\<rparr>)"

definition ComparisonResult_init :: "CareerInfo \<Rightarrow> CareerInfo \<Rightarrow> pyval \<Rightarrow> exn + ComparisonResult" where
  "ComparisonResult_init ca cb dg =
     (if \<not> list_of_min_len 2 dg
      then Inl (ValueError ''Decision guide must be a list with at least 2 guidance statements'')
      else Inr \<lparr>career_a = ca, career_b = cb, decision_guide = dg\<rparr>)"

definition CareerInfo_to_dict :: "CareerInfo \<Rightarrow> (string \<times> pyval) list" where
  "CareerInfo_to_dict c =
     [(''overview'', overview c), (''skills'', skills c), (''salary'', salary c),
      (''time_to_enter'', time_to_enter c), (''pros'', pros c), (''cons'', cons c)]"

definition to_dict :: "ComparisonResult \<Rightarrow> (string \<times> pyval) list" where
  "to_dict r =
     [(''career_a'', PDict (CareerInfo_to_dict (career_a r))),
      (''career_b'', PDict (CareerInfo_to_dict (career_b r))),
      (''decision_guide'', decision_guide r)]"

text \<open>
  \<^verbatim>\<open>CareerInfo(**d)\<close>: a keyword that is no field, or a field without a keyword, is a
  \<^verbatim>\<open>TypeError\<close> of the interpreter; the first unexpected keyword is reported first.
\<close>

definition CareerInfo_fields :: "string list" where
  "CareerInfo_fields = [''overview'', ''skills'', ''salary'', ''time_to_enter'', ''pros'', ''cons'']"

fun join_and :: "string list \<Rightarrow> string" where
  "join_and [] = []"
| "join_and [x] = x"
| "join_and [x, y] = x @ '' and '' @ y"
| "join_and xs = join_comma (butlast xs) @ '', and '' @ last xs"

definition missing_arguments :: "string list \<Rightarrow> exn" where
  "missing_arguments ms =
     TypeError (''CareerInfo.__init__() missing '' @ str_nat (length ms)
                @ '' required positional argument'' @ (if length ms = 1 then [] else ''s'')
                @ '': '' @ join_and (map repr_str ms))"

definition CareerInfo_kwargs :: "(string \<times> pyval) list \<Rightarrow> exn + CareerInfo" where
  "CareerInfo_kwargs kw =
     (case filter (\<lambda>k. k \<notin> set CareerInfo_fields) (map fst kw) of
        k # ks \<Rightarrow>
          Inl (TypeError (''CareerInfo.__init__() got an unexpected keyword argument '' @ repr_str k))
      | [] \<Rightarrow>
         (case (map_of kw ''overview'', map_of kw ''skills'', map_of kw ''salary'',
                map_of kw ''time_to_enter'', map_of kw ''pros'', map_of kw ''cons'') of
            (Some ov, Some sk, Some sa, Some tte, Some pr, Some co) \<Rightarrow>
              CareerInfo_init ov sk sa tte pr co
          | _ \<Rightarrow> Inl (missing_arguments (filter (\<lambda>f. map_of kw f = None) CareerInfo_fields))))"

definition CareerInfo_unpack :: "pyval \<Rightarrow> exn + CareerInfo" where
  "CareerInfo_unpack v =
     (case v of
        PDict kw \<Rightarrow> CareerInfo_kwargs kw
      | _ \<Rightarrow> Inl (TypeError (''models.CareerInfo() argument after ** must be a mapping, not ''
                            @ type_name v)))"

definition from_dict :: "(string \<times> pyval) list \<Rightarrow> exn + ComparisonResult" where
  "from_dict data =
     (case map_of data ''career_a'' of
        None \<Rightarrow> Inl (KeyError ''career_a'')
      | Some a \<Rightarrow>
         (case CareerInfo_unpack a of
            Inl e \<Rightarrow> Inl e
          | Inr ca \<Rightarrow>
             (case map_of data ''career_b'' of
                None \<Rightarrow> Inl (KeyError ''career_b'')
              | Some b \<Rightarrow>
                 (case CareerInfo_unpack b of
                    Inl e \<Rightarrow> Inl e
                  | Inr cb \<Rightarrow>
                     (case map_of data ''decision_guide'' of
                        None \<Rightarrow> Inl (KeyError ''decision_guide'')
                      | Some dg \<Rightarrow> ComparisonResult_init ca cb dg)))))"

section \<open>The response parser\<close>

text \<open>\<^verbatim>\<open>d.get(k, default)\<close>.\<close>

definition dict_get :: "(string \<times> pyval) list \<Rightarrow> string \<Rightarrow> pyval \<Rightarrow> pyval" where
  "dict_get d k dflt = (case map_of d k of Some v \<Rightarrow> v | None \<Rightarrow> dflt)"

text \<open>Lines 241 to 252: trim, drop one leading and one trailing fence, trim again.\<close>

definition fence :: string where
  "fence = [CHR 0x60, CHR 0x60, CHR 0x60]"

definition clean_response :: "string \<Rightarrow> string" where
  "clean_response response =
     (let c0 = strip response;
          c1 = (if startswith c0 (fence @ ''json'') then drop 7 c0
                else if startswith c0 fence then drop 3 c0
                else c0);
          c2 = (if endswith c1 fence then drop_last 3 c1 else c1)
      in strip c2)"

definition required_fields :: "string list" where
  "required_fields = [''career_a'', ''career_b'', ''decision_guide'']"

definition required_career_fields :: "string list" where
  "required_career_fields = [''overview'', ''skills'', ''salary'', ''time_to_enter'', ''pros'', ''cons'']"

text \<open>
  The checks raise or fall through: \<open>Some e\<close> is the exception raised, \<open>None\<close> is
  reaching the end of the loop body.
\<close>

fun check_lists :: "string \<Rightarrow> (string \<times> pyval) list \<Rightarrow> string list \<Rightarrow> exn option" where
  "check_lists career_key career_data [] = None"
| "check_lists career_key career_data (list_field # rest) =
     (case dict_get career_data list_field PNone of
        PList field_value \<Rightarrow>
          if length field_value \<noteq> 3
          then Some (ValueError (list_field @ '' in '' @ career_key
                       @ '' must have exactly 3 items, got '' @ str_nat (length field_value)))
          else check_lists career_key career_data rest
      | v \<Rightarrow> Some (ValueError (list_field @ '' in '' @ career_key
                       @ '' must be a list, got '' @ type_repr v)))"

definition check_career :: "(string \<times> pyval) list \<Rightarrow> string \<Rightarrow> exn option" where
  "check_career data career_key =
     (case map_of data career_key of
        None \<Rightarrow> Some (KeyError career_key)
      | Some (PDict career_data) \<Rightarrow>
         (let missing_career_fields =
                filter (\<lambda>field. map_of career_data field = None) required_career_fields
          in if missing_career_fields \<noteq> []
             then Some (ValueError (''Missing fields in '' @ career_key @ '': ''
                          @ repr_list missing_career_fields))
             else (case dict_get career_data ''salary'' (PStr []) of
                     PStr s \<Rightarrow>
                       (let salary = lower s
                        in if salary \<notin> set tiers
                           then Some (ValueError (''Invalid salary format in '' @ career_key @ '': ''
                                        @ salary @ ''. Must be low/medium/high''))
                           else check_lists career_key career_data [''pros'', ''cons''])
                   | v \<Rightarrow> Some (no_attribute v ''lower'')))
      | Some v \<Rightarrow> Some (ValueError (career_key @ '' must be an object, got '' @ type_repr v)))"

fun check_careers :: "(string \<times> pyval) list \<Rightarrow> string list \<Rightarrow> exn option" where
  "check_careers data [] = None"
| "check_careers data (career_key # rest) =
     (case check_career data career_key of
        Some e \<Rightarrow> Some e
      | None \<Rightarrow> check_careers data rest)"

text \<open>Lines 260 to 303: the checks on the decoded value, then \<^verbatim>\<open>from_dict\<close>.\<close>

definition validate :: "pyval \<Rightarrow> exn + ComparisonResult" where
  "validate data =
     (case data of
        PDict d \<Rightarrow>
         (let missing_fields = filter (\<lambda>field. map_of d field = None) required_fields
          in if missing_fields \<noteq> []
             then Inl (ValueError (''Missing required fields: '' @ repr_list missing_fields))
             else (case check_careers d [''career_a'', ''career_b''] of
                     Some e \<Rightarrow> Inl e
                   | None \<Rightarrow>
                      (case dict_get d ''decision_guide'' PNone of
                         PList dg \<Rightarrow>
                           if length dg < 2
                           then Inl (ValueError (''decision_guide must have at least 2 items, got ''
                                       @ str_nat (length dg)))
                           else from_dict d
                       | v \<Rightarrow> Inl (ValueError (''decision_guide must be a list, got '' @ type_repr v)))))
      | _ \<Rightarrow> Inl (ValueError (''Expected JSON object, got '' @ type_repr data)))"

text \<open>
  \<^verbatim>\<open>json.loads\<close> belongs to the standard library and is a parameter: it returns the
  decoded value, or the text of its \<^verbatim>\<open>JSONDecodeError\<close>. The two handlers at the end
  of \<^verbatim>\<open>_parse_ai_response\<close> re-raise a \<^verbatim>\<open>ValueError\<close> and wrap anything else.
\<close>

definition decode_and_validate :: "(string \<Rightarrow> string + pyval) \<Rightarrow> string \<Rightarrow> exn + ComparisonResult" where
  "decode_and_validate json_loads s =
     (case json_loads (clean_response s) of
        Inl e \<Rightarrow> Inl (ValueError (''Invalid JSON format: '' @ e))
      | Inr data \<Rightarrow> validate data)"

definition parse_ai_response :: "(string \<Rightarrow> string + pyval) \<Rightarrow> pyval \<Rightarrow> exn + ComparisonResult" where
  "parse_ai_response json_loads response =
     (if \<not> truthy response then Inl (ValueError ''Empty or null response from AI'')
      else case response of
             PStr s \<Rightarrow>
               if strip s = [] then Inl (ValueError ''Empty or null response from AI'')
               else (case decode_and_validate json_loads s of
                       Inr r \<Rightarrow> Inr r
                     | Inl (ValueError m) \<Rightarrow> Inl (ValueError m)
                     | Inl e \<Rightarrow> Inl (ValueError (''Unexpected error parsing response: '' @ exn_str e)))
           | v \<Rightarrow> Inl (no_attribute v ''strip''))"

section \<open>Normalizing a result\<close>

definition standardize_salary_format :: "ComparisonResult \<Rightarrow> exn + ComparisonResult" where
  "standardize_salary_format result =
     (case standardize_salary (salary (career_a result)) of
        Inl e \<Rightarrow> Inl e
      | Inr sa \<Rightarrow>
         (case CareerInfo_init (overview (career_a result)) (skills (career_a result)) (PStr sa)
                 (time_to_enter (career_a result)) (pros (career_a result)) (cons (career_a result)) of
            Inl e \<Rightarrow> Inl e
          | Inr standardized_career_a \<Rightarrow>
             (case standardize_salary (salary (career_b result)) of
                Inl e \<Rightarrow> Inl e
              | Inr sb \<Rightarrow>
                 (case CareerInfo_init (overview (career_b result)) (skills (career_b result)) (PStr sb)
                         (time_to_enter (career_b result)) (pros (career_b result)) (cons (career_b result)) of
                    Inl e \<Rightarrow> Inl e
                  | Inr standardized_career_b \<Rightarrow>
                     ComparisonResult_init standardized_career_a standardized_career_b
                       (decision_guide result)))))"

section \<open>Providers and the orchestrator\<close>

text \<open>
  What the outside world answers is a parameter of the model. The prompt that
  \<^verbatim>\<open>_build_optimized_prompt\<close> assembles is a function of the two career names, so a
  backend's answer is indexed by them; console output, sleeping and the random jitter
  do not influence the value returned and are left out.
\<close>

record world =
  requests_available :: bool
    \<comment> \<open>\<^verbatim>\<open>REQUESTS_AVAILABLE\<close>\<close>
  ollama_tags :: "nat option"
    \<comment> \<open>status code of the probe, \<open>None\<close> when \<^verbatim>\<open>requests.get\<close> raises\<close>
  ollama_generate :: "string \<Rightarrow> string \<Rightarrow> string \<Rightarrow> (nat \<times> pyval option) option"
    \<comment> \<open>per model: \<open>None\<close> when \<^verbatim>\<open>requests.post\<close> raises, else the status code and
        what \<^verbatim>\<open>response.json()\<close> gives (\<open>None\<close> when that raises)\<close>
  openai_available :: bool
    \<comment> \<open>\<^verbatim>\<open>OPENAI_AVAILABLE\<close>\<close>
  openai_api_key :: "string option"
    \<comment> \<open>\<^verbatim>\<open>os.getenv("OPENAI_API_KEY")\<close>\<close>
  openai_chat :: "nat \<Rightarrow> string \<Rightarrow> string \<Rightarrow> exn + pyval"
    \<comment> \<open>per attempt: the exception of the client, or \<^verbatim>\<open>message.content\<close>\<close>
  json_loads :: "string \<Rightarrow> string + pyval"

definition is_ollama_available :: "world \<Rightarrow> bool" where
  "is_ollama_available w =
     (if \<not> requests_available w then False
      else case ollama_tags w of None \<Rightarrow> False | Some status_code \<Rightarrow> status_code = 200)"

definition has_api_key :: "world \<Rightarrow> bool" where
  "has_api_key w = (case openai_api_key w of None \<Rightarrow> False | Some k \<Rightarrow> k \<noteq> [])"

definition ollama_models :: "string list" where
  "ollama_models = [''llama3.1:8b'', ''llama3:8b'', ''llama2:7b'', ''mistral:7b'']"

fun ollama_loop :: "world \<Rightarrow> string \<Rightarrow> string \<Rightarrow> string list \<Rightarrow> exn + ComparisonResult" where
  "ollama_loop w a b [] = Inl (Exception ''All Ollama models failed'')"
| "ollama_loop w a b (model # rest) =
     (case ollama_generate w model a b of
        None \<Rightarrow> ollama_loop w a b rest
      | Some (status_code, body) \<Rightarrow>
          if status_code = 200 then
            (case body of
               Some (PDict result) \<Rightarrow>
                 (case parse_ai_response (json_loads w) (dict_get result ''response'' (PStr [])) of
                    Inr r \<Rightarrow> Inr r
                  | Inl e \<Rightarrow> ollama_loop w a b rest)
             | _ \<Rightarrow> ollama_loop w a b rest)
          else ollama_loop w a b rest)"

definition call_ollama_api :: "world \<Rightarrow> string \<Rightarrow> string \<Rightarrow> exn + ComparisonResult" where
  "call_ollama_api w a b =
     (if \<not> requests_available w then Inl (Exception ''requests library not available'')
      else ollama_loop w a b ollama_models)"

definition max_retries :: nat where
  "max_retries = 3"

fun openai_loop :: "world \<Rightarrow> string \<Rightarrow> string \<Rightarrow> nat list \<Rightarrow> exn + ComparisonResult" where
  "openai_loop w a b [] = Inl (Exception ''OpenAI API failed after retries'')"
| "openai_loop w a b (attempt # rest) =
     (case (case openai_chat w attempt a b of
              Inl e \<Rightarrow> Inl e
            | Inr ai_response \<Rightarrow> parse_ai_response (json_loads w) ai_response) of
        Inr r \<Rightarrow> Inr r
      | Inl e \<Rightarrow> if attempt = max_retries - 1 then Inl e else openai_loop w a b rest)"

definition call_openai_api :: "world \<Rightarrow> string \<Rightarrow> string \<Rightarrow> exn + ComparisonResult" where
  "call_openai_api w a b = openai_loop w a b [0..<max_retries]"

definition get_mock_comparison :: "string \<Rightarrow> string \<Rightarrow> exn + ComparisonResult" where
  "get_mock_comparison a b =
     (case CareerInfo_init
             (PStr (a @ '' involves specialized skills and offers various career paths. This field typically requires dedicated learning and practice.''))
             (PStr (''Core skills for '' @ a @ '' include problem-solving, communication, and domain-specific technical abilities.''))
             (PStr ''medium'')
             (PStr ''2-4 years'')
             (PList [PStr ''Growing field'', PStr ''Good opportunities'', PStr ''Skill development''])
             (PList [PStr ''Learning curve'', PStr ''Competition'', PStr ''Constant updates'']) of
        Inl e \<Rightarrow> Inl e
      | Inr career_a_info \<Rightarrow>
         (case CareerInfo_init
                 (PStr (b @ '' offers unique opportunities and challenges. This career path has its own requirements and growth potential.''))
                 (PStr (''Essential skills for '' @ b @ '' include analytical thinking, creativity, and relevant technical knowledge.''))
                 (PStr ''medium'')
                 (PStr ''2-4 years'')
                 (PList [PStr ''Diverse opportunities'', PStr ''Creative work'', PStr ''Professional growth''])
                 (PList [PStr ''Market variability'', PStr ''Skill requirements'', PStr ''Time investment'']) of
            Inl e \<Rightarrow> Inl e
          | Inr career_b_info \<Rightarrow>
              ComparisonResult_init career_a_info career_b_info
                (PList [PStr (''Choose '' @ a @ '' if you prefer structured problem-solving and technical challenges''),
                        PStr (''Choose '' @ b @ '' if you value creativity and diverse project opportunities'')])))"

datatype provider = Ollama | OpenAI | Mock

fun provider_func :: "provider \<Rightarrow> world \<Rightarrow> string \<Rightarrow> string \<Rightarrow> exn + ComparisonResult" where
  "provider_func Ollama w a b = call_ollama_api w a b"
| "provider_func OpenAI w a b = call_openai_api w a b"
| "provider_func Mock w a b = get_mock_comparison a b"

text \<open>
  The body of a taken branch: call the provider and normalize; \<open>None\<close> is an
  exception, which the handler of the loop turns into \<^verbatim>\<open>continue\<close>.
\<close>

definition attempt_provider :: "provider \<Rightarrow> world \<Rightarrow> string \<Rightarrow> string \<Rightarrow> ComparisonResult option" where
  "attempt_provider p w a b =
     (case provider_func p w a b of
        Inl e \<Rightarrow> None
      | Inr result \<Rightarrow>
         (case standardize_salary_format result of
            Inl e \<Rightarrow> None
          | Inr r \<Rightarrow> Some r))"

fun try_providers :: "world \<Rightarrow> string \<Rightarrow> string \<Rightarrow> provider list \<Rightarrow> exn + ComparisonResult" where
  "try_providers w a b [] = get_mock_comparison a b"
| "try_providers w a b (p # rest) =
     (if p = Ollama \<and> is_ollama_available w then
        (case attempt_provider p w a b of Some r \<Rightarrow> Inr r | None \<Rightarrow> try_providers w a b rest)
      else if p = OpenAI \<and> openai_available w \<and> has_api_key w then
        (case attempt_provider p w a b of Some r \<Rightarrow> Inr r | None \<Rightarrow> try_providers w a b rest)
      else if p = Mock then
        (case attempt_provider p w a b of Some r \<Rightarrow> Inr r | None \<Rightarrow> try_providers w a b rest)
      else try_providers w a b rest)"

definition run_referee :: "world \<Rightarrow> string \<Rightarrow> string \<Rightarrow> exn + ComparisonResult" where
  "run_referee w a b = try_providers w a b [Ollama, OpenAI, Mock]"

section \<open>Sample documents and worlds\<close>

text \<open>
  Concrete inputs on which the theorems below are instantiated: a payload as the
  decoder returns it, the JSON text that encodes it, a decoder that knows the listed
  texts only, and two worlds.
\<close>

definition quoted :: "string \<Rightarrow> string" where
  "quoted s = [CHR 0x22] @ s @ [CHR 0x22]"

definition array_text :: "string list \<Rightarrow> string" where
  "array_text ts = ''['' @ join_comma ts @ '']''"

definition object_text :: "(string \<times> string) list \<Rightarrow> string" where
  "object_text kts = ''{'' @ join_comma (map (\<lambda>(k, t). quoted k @ '': '' @ t) kts) @ ''}''"

definition sample_career :: "string \<Rightarrow> (string \<times> pyval) list" where
  "sample_career sal =
     [(''overview'', PStr ''Cares for patients''),
      (''skills'', PStr ''Clinical skills''),
      (''salary'', PStr sal),
      (''time_to_enter'', PStr ''3 years''),
      (''pros'', PList [PStr ''Stable'', PStr ''Useful'', PStr ''Varied'']),
      (''cons'', PList [PStr ''Shifts'', PStr ''Stress'', PStr ''Exams''])]"

definition sample_career_text :: "string \<Rightarrow> string list \<Rightarrow> string" where
  "sample_career_text sal omitted =
     object_text (filter (\<lambda>(k, t). k \<notin> set omitted)
       [(''overview'', quoted ''Cares for patients''),
        (''skills'', quoted ''Clinical skills''),
        (''salary'', quoted sal),
        (''time_to_enter'', quoted ''3 years''),
        (''pros'', array_text [quoted ''Stable'', quoted ''Useful'', quoted ''Varied'']),
        (''cons'', array_text [quoted ''Shifts'', quoted ''Stress'', quoted ''Exams''])])"

definition sample_payload :: "string \<Rightarrow> string \<Rightarrow> (string \<times> pyval) list" where
  "sample_payload sa sb =
     [(''career_a'', PDict (sample_career sa)),
      (''career_b'', PDict (sample_career sb)),
      (''decision_guide'', PList [PStr ''Choose A if'', PStr ''Choose B if''])]"

definition sample_text :: "string \<Rightarrow> string \<Rightarrow> string list \<Rightarrow> string list \<Rightarrow> string" where
  "sample_text sa sb omitted omitted_b =
     object_text (filter (\<lambda>(k, t). k \<notin> set omitted)
       [(''career_a'', sample_career_text sa []),
        (''career_b'', sample_career_text sb omitted_b),
        (''decision_guide'', array_text [quoted ''Choose A if'', quoted ''Choose B if''])])"

definition sample_result :: "string \<Rightarrow> string \<Rightarrow> ComparisonResult" where
  "sample_result sa sb =
     \<lparr>career_a = \<lparr>overview = PStr ''Cares for patients'', skills = PStr ''Clinical skills'',
                   salary = PStr sa, time_to_enter = PStr ''3 years'',
                   pros = PList [PStr ''Stable'', PStr ''Useful'', PStr ''Varied''],
                   cons = PList [PStr ''Shifts'', PStr ''Stress'', PStr ''Exams'']\<rparr>,
       career_b = \<lparr>overview = PStr ''Cares for patients'', skills = PStr ''Clinical skills'',
                   salary = PStr sb, time_to_enter = PStr ''3 years'',
                   pros = PList [PStr ''Stable'', PStr ''Useful'', PStr ''Varied''],
                   cons = PList [PStr ''Shifts'', PStr ''Stress'', PStr ''Exams'']\<rparr>,
       decision_guide = PList [PStr ''Choose A if'', PStr ''Choose B if'']\<rparr>"

definition table_loads :: "(string \<times> pyval) list \<Rightarrow> string \<Rightarrow> string + pyval" where
  "table_loads tbl s =
     (case map_of tbl s of
        Some v \<Rightarrow> Inr v
      | None \<Rightarrow> Inl ''Expecting value: line 1 column 1 (char 0)'')"

definition fenced :: "string \<Rightarrow> string" where
  "fenced p = fence @ ''json'' @ [CHR 0x0A] @ p @ [CHR 0x0A] @ fence"

definition offline_world :: world where
  "offline_world =
     \<lparr>requests_available = False, ollama_tags = None, ollama_generate = (\<lambda>model a b. None),
      openai_available = False, openai_api_key = None,
      openai_chat = (\<lambda>attempt a b. Inl (Exception ''no client'')),
      json_loads = table_loads []\<rparr>"

definition ollama_world :: world where
  "ollama_world =
     \<lparr>requests_available = True, ollama_tags = Some 200,
      ollama_generate = (\<lambda>model a b.
        Some (200, Some (PDict [(''response'', PStr (fenced (sample_text ''High'' ''low'' [] [])))]))),
      openai_available = False, openai_api_key = None,
      openai_chat = (\<lambda>attempt a b. Inl (Exception ''no client'')),
      json_loads = table_loads [(sample_text ''High'' ''low'' [] [], PDict (sample_payload ''High'' ''low''))]\<rparr>"

section \<open>Properties\<close>

subsection \<open>The salary normalizer\<close>

lemma classify_in_tiers: "classify s \<in> set tiers"
  by (simp add: classify_def tiers_def)

lemma standardize_salary_range: "standardize_salary v = Inr t \<Longrightarrow> t \<in> set tiers"
  using classify_in_tiers [of "strip (lower (case v of PStr s \<Rightarrow> s | _ \<Rightarrow> []))"]
  by (auto simp: standardize_salary_def tiers_def split: if_splits pyval.splits)

lemma standardize_medium: "standardize_salary (PStr ''medium'') = Inr ''medium''"
  by (simp add: standardize_salary_def classify_def tiers_def strip_def lower_def lower_char_def
        upper_letters_def lower_letters_def is_space_def whitespace_def)

text \<open>
  Claim C1 says that a salary text containing the figure \<open>N\<close> is classified by \<open>N\<close>:
  low under 60,000, medium from 60,000 and high from 80,000, and it lists 150,000 among
  the supported spellings. The second low pattern (commented "Under 60k" in the source)
  has no anchor on its left: in \<^verbatim>\<open>150,000\<close> its digit run takes the leading 1 and the
  rest of the pattern matches \<^verbatim>\<open>50,000\<close>, so the answer is low before the high patterns
  (commented "100k+") are tried. The figures 85,000 and $45,000 come out as claimed.
\<close>

theorem standardize_salary_six_figures:
  "standardize_salary (PStr ''150,000'') = Inr ''low''
   \<and> standardize_salary (PStr ''$150,000'') = Inr ''low''
   \<and> standardize_salary (PStr ''85,000'') = Inr ''high''
   \<and> standardize_salary (PStr ''$45,000'') = Inr ''low''"
  by code_simp

text \<open>
  Claim C6: on every string the normalizer returns one of low, medium, high; on
  \<^verbatim>\<open>None\<close> and on the empty string it returns medium; a string that matches no
  pattern gives medium; a string whose lower-cased, trimmed form is a tier name gives
  that name.
\<close>

theorem standardize_salary_total:
  "(\<exists>t \<in> set tiers. standardize_salary (PStr s) = Inr t)
   \<and> standardize_salary PNone = Inr ''medium''
   \<and> standardize_salary (PStr []) = Inr ''medium''
   \<and> (strip (lower s1) \<notin> set tiers \<and> \<not> any_match low_patterns (strip (lower s1))
        \<and> \<not> any_match high_patterns (strip (lower s1))
        \<and> \<not> any_match medium_patterns (strip (lower s1))
      \<longrightarrow> standardize_salary (PStr s1) = Inr ''medium'')
   \<and> (strip (lower s2) \<in> set tiers \<longrightarrow> standardize_salary (PStr s2) = Inr (strip (lower s2)))"
proof -
  have medium: "''medium'' \<in> set tiers"
    by (simp add: tiers_def)
  have "strip (lower []) \<notin> set tiers"
    by (simp add: strip_def lower_def tiers_def)
  then have nonempty: "strip (lower s2) \<in> set tiers \<Longrightarrow> s2 \<noteq> []"
    by auto
  have "\<exists>t \<in> set tiers. standardize_salary (PStr s) = Inr t"
    using classify_in_tiers [of "strip (lower s)"] medium
    by (simp add: standardize_salary_def)
  moreover have "standardize_salary PNone = Inr ''medium''"
    and "standardize_salary (PStr []) = Inr ''medium''"
    by (simp_all add: standardize_salary_def)
  moreover have "standardize_salary (PStr s1) = Inr ''medium''"
    if "strip (lower s1) \<notin> set tiers" "\<not> any_match low_patterns (strip (lower s1))"
       "\<not> any_match high_patterns (strip (lower s1))"
       "\<not> any_match medium_patterns (strip (lower s1))"
    using that by (simp add: standardize_salary_def classify_def)
  moreover have "standardize_salary (PStr s2) = Inr (strip (lower s2))"
    if "strip (lower s2) \<in> set tiers"
    using that nonempty by (simp add: standardize_salary_def classify_def)
  ultimately show ?thesis by blast
qed

theorem standardize_salary_total_witness:
  "(\<exists>t \<in> set tiers. standardize_salary (PStr ''$70,000 per year'') = Inr t)
   \<and> strip (lower ''it depends'') \<notin> set tiers
   \<and> \<not> any_match low_patterns (strip (lower ''it depends''))
   \<and> \<not> any_match high_patterns (strip (lower ''it depends''))
   \<and> \<not> any_match medium_patterns (strip (lower ''it depends''))
   \<and> standardize_salary (PStr ''it depends'') = Inr ''medium''
   \<and> strip (lower ''  HIGH '') \<in> set tiers
   \<and> standardize_salary (PStr ''  HIGH '') = Inr (strip (lower ''  HIGH ''))
   \<and> strip (lower ''  HIGH '') = ''high''"
proof -
  have h1: "strip (lower ''it depends'') \<notin> set tiers"
    "\<not> any_match low_patterns (strip (lower ''it depends''))"
    "\<not> any_match high_patterns (strip (lower ''it depends''))"
    "\<not> any_match medium_patterns (strip (lower ''it depends''))"
    by code_simp+
  have h2: "strip (lower ''  HIGH '') \<in> set tiers" "strip (lower ''  HIGH '') = ''high''"
    by code_simp+
  from standardize_salary_total [of "''$70,000 per year''" "''it depends''" "''  HIGH ''"] h1 h2
  show ?thesis by blast
qed

subsection \<open>Construction and serialization\<close>

lemma CareerInfo_init_Inr:
  "CareerInfo_init ov sk sa tte pr co = Inr c \<longleftrightarrow>
     list_of_len 3 pr \<and> list_of_len 3 co \<and>
     c = \<lparr>overview = ov, skills = sk, salary = sa, time_to_enter = tte, pros = pr, cons = co\<rparr>"
  by (auto simp: CareerInfo_init_def)

lemma ComparisonResult_init_Inr:
  "ComparisonResult_init ca cb dg = Inr r \<longleftrightarrow>
     list_of_min_len 2 dg \<and> r = \<lparr>career_a = ca, career_b = cb, decision_guide = dg\<rparr>"
  by (auto simp: ComparisonResult_init_def)

text \<open>
  Claim C7: constructing a \<^verbatim>\<open>CareerInfo\<close> fails with a \<^verbatim>\<open>ValueError\<close> when pros or
  cons is not a list of exactly three elements, succeeds when both are, and every
  constructed \<^verbatim>\<open>CareerInfo\<close> has exactly three pros and three cons.
\<close>

theorem CareerInfo_init_three:
  "(\<not> list_of_len 3 pr1 \<or> \<not> list_of_len 3 co1 \<longrightarrow>
      (\<exists>m. CareerInfo_init ov sk sa tte pr1 co1 = Inl (ValueError m)))
   \<and> (list_of_len 3 pr2 \<and> list_of_len 3 co2 \<longrightarrow>
      CareerInfo_init ov sk sa tte pr2 co2 =
        Inr \<lparr>overview = ov, skills = sk, salary = sa, time_to_enter = tte, pros = pr2, cons = co2\<rparr>)
   \<and> (CareerInfo_init ov sk sa tte pr3 co3 = Inr c \<longrightarrow>
      (\<exists>ps cs. pros c = PList ps \<and> length ps = 3 \<and> cons c = PList cs \<and> length cs = 3))"
proof -
  have len: "list_of_len 3 v \<longleftrightarrow> (\<exists>xs. v = PList xs \<and> length xs = 3)" for v
    by (cases v) auto
  show ?thesis
    by (auto simp: CareerInfo_init_def len)
qed

theorem CareerInfo_init_three_witness:
  "\<not> list_of_len 3 (PList [PStr ''one'', PStr ''two''])
   \<and> (\<exists>m. CareerInfo_init (PStr ''o'') (PStr ''s'') (PStr ''low'') (PStr ''t'')
             (PList [PStr ''one'', PStr ''two''])
             (PList [PStr ''a'', PStr ''b'', PStr ''c'']) = Inl (ValueError m))
   \<and> list_of_len 3 (PList [PStr ''one'', PStr ''two'', PStr ''three''])
   \<and> list_of_len 3 (PList [PStr ''a'', PStr ''b'', PStr ''c''])
   \<and> CareerInfo_init (PStr ''o'') (PStr ''s'') (PStr ''low'') (PStr ''t'')
        (PList [PStr ''one'', PStr ''two'', PStr ''three''])
        (PList [PStr ''a'', PStr ''b'', PStr ''c'']) =
      Inr \<lparr>overview = PStr ''o'', skills = PStr ''s'', salary = PStr ''low'',
           time_to_enter = PStr ''t'',
           pros = PList [PStr ''one'', PStr ''two'', PStr ''three''],
           cons = PList [PStr ''a'', PStr ''b'', PStr ''c'']\<rparr>"
proof -
  have h1: "\<not> list_of_len 3 (PList [PStr ''one'', PStr ''two''])"
    by simp
  have h2: "list_of_len 3 (PList [PStr ''one'', PStr ''two'', PStr ''three''])"
    "list_of_len 3 (PList [PStr ''a'', PStr ''b'', PStr ''c''])"
    by simp_all
  from CareerInfo_init_three [of "PList [PStr ''one'', PStr ''two'']"
      "PList [PStr ''a'', PStr ''b'', PStr ''c'']" "PStr ''o''" "PStr ''s''" "PStr ''low''" "PStr ''t''"
      "PList [PStr ''one'', PStr ''two'', PStr ''three'']" "PList [PStr ''a'', PStr ''b'', PStr ''c'']"]
    h1 h2
  show ?thesis by blast
qed

text \<open>
  Claim C9: a \<^verbatim>\<open>ComparisonResult\<close> built by the constructors from two constructed
  \<^verbatim>\<open>CareerInfo\<close> values is recovered unchanged by \<^verbatim>\<open>from_dict\<close> from its
  \<^verbatim>\<open>to_dict\<close> form.
\<close>

theorem from_dict_to_dict:
  assumes "CareerInfo_init ov1 sk1 sa1 tte1 pr1 co1 = Inr ca"
    and "CareerInfo_init ov2 sk2 sa2 tte2 pr2 co2 = Inr cb"
    and "ComparisonResult_init ca cb dg = Inr r"
  shows "from_dict (to_dict r) = Inr r"
proof -
  have unpack: "CareerInfo_unpack (PDict (CareerInfo_to_dict c)) = Inr c"
    if "list_of_len 3 (pros c)" "list_of_len 3 (cons c)" for c
    using that
    by (simp add: CareerInfo_unpack_def CareerInfo_kwargs_def CareerInfo_to_dict_def
          CareerInfo_fields_def CareerInfo_init_def)
  from assms(1) have a: "list_of_len 3 (pros ca)" "list_of_len 3 (cons ca)"
    by (auto simp: CareerInfo_init_Inr)
  from assms(2) have b: "list_of_len 3 (pros cb)" "list_of_len 3 (cons cb)"
    by (auto simp: CareerInfo_init_Inr)
  from assms(3) have r: "list_of_min_len 2 dg" "r = \<lparr>career_a = ca, career_b = cb, decision_guide = dg\<rparr>"
    by (auto simp: ComparisonResult_init_Inr)
  show ?thesis
    by (simp add: from_dict_def to_dict_def unpack a b r ComparisonResult_init_def)
qed

theorem from_dict_to_dict_witness:
  "CareerInfo_init (PStr ''Cares for patients'') (PStr ''Clinical skills'') (PStr ''High'')
      (PStr ''3 years'') (PList [PStr ''Stable'', PStr ''Useful'', PStr ''Varied''])
      (PList [PStr ''Shifts'', PStr ''Stress'', PStr ''Exams'']) = Inr (career_a (sample_result ''High'' ''low''))
   \<and> CareerInfo_init (PStr ''Cares for patients'') (PStr ''Clinical skills'') (PStr ''low'')
      (PStr ''3 years'') (PList [PStr ''Stable'', PStr ''Useful'', PStr ''Varied''])
      (PList [PStr ''Shifts'', PStr ''Stress'', PStr ''Exams'']) = Inr (career_b (sample_result ''High'' ''low''))
   \<and> ComparisonResult_init (career_a (sample_result ''High'' ''low'')) (career_b (sample_result ''High'' ''low''))
        (PList [PStr ''Choose A if'', PStr ''Choose B if'']) = Inr (sample_result ''High'' ''low'')
   \<and> from_dict (to_dict (sample_result ''High'' ''low'')) = Inr (sample_result ''High'' ''low'')"
proof -
  have h1: "CareerInfo_init (PStr ''Cares for patients'') (PStr ''Clinical skills'') (PStr ''High'')
      (PStr ''3 years'') (PList [PStr ''Stable'', PStr ''Useful'', PStr ''Varied''])
      (PList [PStr ''Shifts'', PStr ''Stress'', PStr ''Exams'']) = Inr (career_a (sample_result ''High'' ''low''))"
    by (simp add: CareerInfo_init_def sample_result_def)
  have h2: "CareerInfo_init (PStr ''Cares for patients'') (PStr ''Clinical skills'') (PStr ''low'')
      (PStr ''3 years'') (PList [PStr ''Stable'', PStr ''Useful'', PStr ''Varied''])
      (PList [PStr ''Shifts'', PStr ''Stress'', PStr ''Exams'']) = Inr (career_b (sample_result ''High'' ''low''))"
    by (simp add: CareerInfo_init_def sample_result_def)
  have h3: "ComparisonResult_init (career_a (sample_result ''High'' ''low'')) (career_b (sample_result ''High'' ''low''))
        (PList [PStr ''Choose A if'', PStr ''Choose B if'']) = Inr (sample_result ''High'' ''low'')"
    by (simp add: ComparisonResult_init_def sample_result_def)
  from from_dict_to_dict [OF h1 h2 h3] h1 h2 h3 show ?thesis by blast
qed

subsection \<open>Normalizing a result\<close>

lemma standardize_salary_format_Inr:
  assumes "standardize_salary_format r = Inr r'"
  shows "\<exists>sa sb. standardize_salary (salary (career_a r)) = Inr sa
           \<and> standardize_salary (salary (career_b r)) = Inr sb
           \<and> r' = \<lparr>career_a = (career_a r)\<lparr>salary := PStr sa\<rparr>,
                   career_b = (career_b r)\<lparr>salary := PStr sb\<rparr>,
                   decision_guide = decision_guide r\<rparr>"
  using assms
  by (auto simp: standardize_salary_format_def CareerInfo_init_Inr ComparisonResult_init_Inr
           split: sum.splits)

text \<open>
  Claim C10: when \<^verbatim>\<open>_standardize_salary_format\<close> succeeds, the overview, skills,
  time to enter, pros and cons of both careers and the decision guide of its result are
  those of its argument; only the two salary fields can differ.
\<close>

theorem standardize_salary_format_frame:
  assumes "standardize_salary_format r = Inr r'"
  shows "overview (career_a r') = overview (career_a r)
       \<and> skills (career_a r') = skills (career_a r)
       \<and> time_to_enter (career_a r') = time_to_enter (career_a r)
       \<and> pros (career_a r') = pros (career_a r)
       \<and> cons (career_a r') = cons (career_a r)
       \<and> overview (career_b r') = overview (career_b r)
       \<and> skills (career_b r') = skills (career_b r)
       \<and> time_to_enter (career_b r') = time_to_enter (career_b r)
       \<and> pros (career_b r') = pros (career_b r)
       \<and> cons (career_b r') = cons (career_b r)
       \<and> decision_guide r' = decision_guide r"
  using standardize_salary_format_Inr [OF assms] by auto

theorem standardize_salary_format_frame_witness:
  "standardize_salary_format (sample_result ''85,000'' ''45k'') = Inr (sample_result ''high'' ''low'')
   \<and> overview (career_a (sample_result ''high'' ''low'')) = overview (career_a (sample_result ''85,000'' ''45k''))
   \<and> pros (career_b (sample_result ''high'' ''low'')) = pros (career_b (sample_result ''85,000'' ''45k''))
   \<and> decision_guide (sample_result ''high'' ''low'') = decision_guide (sample_result ''85,000'' ''45k'')"
proof -
  have h: "standardize_salary_format (sample_result ''85,000'' ''45k'') = Inr (sample_result ''high'' ''low'')"
    by code_simp
  from standardize_salary_format_frame [OF h] h show ?thesis by simp
qed

subsection \<open>The orchestrator\<close>

lemma get_mock_comparison_Inr:
  "\<exists>r. get_mock_comparison a b = Inr r \<and> salary (career_a r) = PStr ''medium''
         \<and> salary (career_b r) = PStr ''medium''"
  by (simp add: get_mock_comparison_def CareerInfo_init_def ComparisonResult_init_def)

lemma standardize_mock:
  "get_mock_comparison a b = Inr r \<Longrightarrow> standardize_salary_format r = Inr r"
  by (auto simp: get_mock_comparison_def CareerInfo_init_def ComparisonResult_init_def
        standardize_salary_format_def standardize_medium)

lemma attempt_mock: "\<exists>r. attempt_provider Mock w a b = Some r \<and> get_mock_comparison a b = Inr r"
  using get_mock_comparison_Inr [of a b] standardize_mock [of a b]
  by (auto simp: attempt_provider_def)

lemma attempt_provider_tiers:
  assumes "attempt_provider p w a b = Some r"
  shows "salary (career_a r) \<in> {PStr ''low'', PStr ''medium'', PStr ''high''}
       \<and> salary (career_b r) \<in> {PStr ''low'', PStr ''medium'', PStr ''high''}
       \<and> (\<exists>raw. standardize_salary_format raw = Inr r)"
proof -
  from assms obtain raw where raw: "standardize_salary_format raw = Inr r"
    by (auto simp: attempt_provider_def split: sum.splits)
  from standardize_salary_format_Inr [OF raw] obtain sa sb where
    sa: "standardize_salary (salary (career_a raw)) = Inr sa" and
    sb: "standardize_salary (salary (career_b raw)) = Inr sb" and
    r: "r = \<lparr>career_a = (career_a raw)\<lparr>salary := PStr sa\<rparr>,
              career_b = (career_b raw)\<lparr>salary := PStr sb\<rparr>,
              decision_guide = decision_guide raw\<rparr>"
    by blast
  from standardize_salary_range [OF sa] standardize_salary_range [OF sb] r raw
  show ?thesis by (auto simp: tiers_def)
qed

lemma try_providers_tiers:
  assumes "Mock \<in> set ps"
  shows "\<exists>r. try_providers w a b ps = Inr r
           \<and> salary (career_a r) \<in> {PStr ''low'', PStr ''medium'', PStr ''high''}
           \<and> salary (career_b r) \<in> {PStr ''low'', PStr ''medium'', PStr ''high''}
           \<and> (\<exists>raw. standardize_salary_format raw = Inr r)"
  using assms
proof (induction ps)
  case Nil
  then show ?case by simp
next
  case (Cons p ps)
  show ?case
  proof (cases "attempt_provider p w a b")
    case (Some r)
    note tiers_r = attempt_provider_tiers [OF Some]
    show ?thesis
    proof (cases "p = Mock")
      case True
      with Some tiers_r show ?thesis by simp
    next
      case False
      with Cons have IH: "\<exists>r. try_providers w a b ps = Inr r
           \<and> salary (career_a r) \<in> {PStr ''low'', PStr ''medium'', PStr ''high''}
           \<and> salary (career_b r) \<in> {PStr ''low'', PStr ''medium'', PStr ''high''}
           \<and> (\<exists>raw. standardize_salary_format raw = Inr r)" by simp
      with Some tiers_r False show ?thesis by (cases p) auto
    qed
  next
    case None
    with attempt_mock [of w a b] have "p \<noteq> Mock" by auto
    with Cons have IH: "\<exists>r. try_providers w a b ps = Inr r
           \<and> salary (career_a r) \<in> {PStr ''low'', PStr ''medium'', PStr ''high''}
           \<and> salary (career_b r) \<in> {PStr ''low'', PStr ''medium'', PStr ''high''}
           \<and> (\<exists>raw. standardize_salary_format raw = Inr r)" by simp
    with None show ?thesis by (cases p) auto
  qed
qed

text \<open>
  Claim C3: whatever the backends answer, \<^verbatim>\<open>run_referee\<close> returns a result, both of
  its salary fields are one of the strings low, medium, high, and the result is an
  output of the salary normalization.
\<close>

theorem run_referee_salary_tiers:
  "\<exists>r. run_referee w a b = Inr r
      \<and> salary (career_a r) \<in> {PStr ''low'', PStr ''medium'', PStr ''high''}
      \<and> salary (career_b r) \<in> {PStr ''low'', PStr ''medium'', PStr ''high''}
      \<and> (\<exists>raw. standardize_salary_format raw = Inr r)"
  unfolding run_referee_def by (rule try_providers_tiers) simp

theorem run_referee_salary_tiers_witness:
  "(\<exists>r. run_referee ollama_world ''Nurse'' ''Teacher'' = Inr r
      \<and> salary (career_a r) \<in> {PStr ''low'', PStr ''medium'', PStr ''high''}
      \<and> salary (career_b r) \<in> {PStr ''low'', PStr ''medium'', PStr ''high''}
      \<and> (\<exists>raw. standardize_salary_format raw = Inr r))
   \<and> run_referee ollama_world ''Nurse'' ''Teacher'' = Inr (sample_result ''high'' ''low'')"
proof -
  have "run_referee ollama_world ''Nurse'' ''Teacher'' = Inr (sample_result ''high'' ''low'')"
    by code_simp
  with run_referee_salary_tiers [of ollama_world "''Nurse''" "''Teacher''"]
  show ?thesis by blast
qed

text \<open>
  Claim C2: when the probe of the local inference server fails and no API key is
  configured, \<^verbatim>\<open>run_referee\<close> does not raise and returns the mock comparison: each
  career name occurs verbatim in its overview, both salaries are medium, and the
  decision guide has exactly two elements.
\<close>

theorem run_referee_mock_fallback:
  assumes "\<not> is_ollama_available w" and "\<not> has_api_key w"
  shows "\<exists>r ta tb g. run_referee w a b = Inr r \<and> get_mock_comparison a b = Inr r
           \<and> overview (career_a r) = PStr ta \<and> sublist a ta
           \<and> overview (career_b r) = PStr tb \<and> sublist b tb
           \<and> salary (career_a r) = PStr ''medium'' \<and> salary (career_b r) = PStr ''medium''
           \<and> decision_guide r = PList g \<and> length g = 2"
proof -
  from attempt_mock [of w a b] obtain r where
    att: "attempt_provider Mock w a b = Some r" and mock: "get_mock_comparison a b = Inr r"
    by blast
  from assms att have run: "run_referee w a b = Inr r"
    by (simp add: run_referee_def)
  from mock have
    "overview (career_a r) = PStr (a @ '' involves specialized skills and offers various career paths. This field typically requires dedicated learning and practice.'')"
    "overview (career_b r) = PStr (b @ '' offers unique opportunities and challenges. This career path has its own requirements and growth potential.'')"
    "salary (career_a r) = PStr ''medium''" "salary (career_b r) = PStr ''medium''"
    "\<exists>g. decision_guide r = PList g \<and> length g = 2"
    by (auto simp: get_mock_comparison_def CareerInfo_init_def ComparisonResult_init_def)
  with run mock show ?thesis
    by (metis sublist_append_rightI)
qed

theorem run_referee_mock_fallback_witness:
  "\<not> is_ollama_available offline_world \<and> \<not> has_api_key offline_world
   \<and> (\<exists>r ta tb g. run_referee offline_world ''Nurse'' ''Teacher'' = Inr r
         \<and> get_mock_comparison ''Nurse'' ''Teacher'' = Inr r
         \<and> overview (career_a r) = PStr ta \<and> sublist ''Nurse'' ta
         \<and> overview (career_b r) = PStr tb \<and> sublist ''Teacher'' tb
         \<and> salary (career_a r) = PStr ''medium'' \<and> salary (career_b r) = PStr ''medium''
         \<and> decision_guide r = PList g \<and> length g = 2)"
proof -
  have h1: "\<not> is_ollama_available offline_world"
    by (simp add: is_ollama_available_def offline_world_def)
  have h2: "\<not> has_api_key offline_world"
    by (simp add: has_api_key_def offline_world_def)
  from run_referee_mock_fallback [OF h1 h2, of "''Nurse''" "''Teacher''"] h1 h2
  show ?thesis by blast
qed

subsection \<open>Trimming and fences\<close>

lemma strip_Nil: "strip [] = []"
  by (simp add: strip_def)

lemma strip_self:
  assumes "s = [] \<or> (\<not> is_space (hd s) \<and> \<not> is_space (last s))"
  shows "strip s = s"
proof (cases "s = []")
  case True
  then show ?thesis by (simp add: strip_def)
next
  case False
  with assms have "dropWhile is_space s = s" "dropWhile is_space (rev s) = rev s"
    by (simp_all add: dropWhile_eq_self_iff hd_rev)
  then show ?thesis by (simp add: strip_def)
qed

lemma strip_ends:
  assumes "strip s \<noteq> []"
  shows "\<not> is_space (hd (strip s)) \<and> \<not> is_space (last (strip s))"
proof -
  define t where "t = dropWhile is_space s"
  define u where "u = dropWhile is_space (rev t)"
  have s: "strip s = rev u" by (simp add: strip_def t_def u_def)
  with assms have u: "u \<noteq> []" by simp
  then have "\<not> is_space (hd u)" unfolding u_def by (rule hd_dropWhile)
  moreover have "rev t = takeWhile is_space (rev t) @ u"
    by (simp add: u_def)
  then have "last (rev t) = last u" using u by (metis last_appendR)
  moreover from u have t: "t \<noteq> []" by (auto simp: u_def)
  then have "\<not> is_space (hd t)" unfolding t_def by (rule hd_dropWhile)
  ultimately show ?thesis using s u t by (simp add: hd_rev last_rev)
qed

lemma strip_idem: "strip (strip s) = strip s"
  using strip_ends [of s] by (intro strip_self) blast

lemma strip_pad:
  assumes "\<forall>c \<in> set ws1. is_space c" and "\<forall>c \<in> set ws2. is_space c"
  shows "strip (ws1 @ p @ ws2) = strip p"
proof -
  have l: "dropWhile is_space (ws1 @ p @ ws2) = dropWhile is_space (p @ ws2)"
    using assms(1) by simp
  show ?thesis
  proof (cases "\<forall>c \<in> set p. is_space c")
    case True
    with assms have "strip (ws1 @ p @ ws2) = []"
      by (auto simp: strip_def dest: set_dropWhileD)
    moreover from True have "strip p = []"
      by (auto simp: strip_def dest: set_dropWhileD)
    ultimately show ?thesis by simp
  next
    case False
    then have "dropWhile is_space (p @ ws2) = dropWhile is_space p @ ws2"
      by (auto simp: dropWhile_append)
    moreover have "dropWhile is_space (rev ws2 @ y) = dropWhile is_space y" for y
      using assms(2) by (intro dropWhile_append2) simp
    ultimately show ?thesis using l by (simp add: strip_def)
  qed
qed

lemma fence_not_space: "\<not> is_space (CHR 0x60)"
  by (simp add: is_space_def whitespace_def)

lemma clean_unfenced:
  assumes "\<not> startswith (strip p) fence" and "\<not> endswith (strip p) fence"
  shows "clean_response p = strip p"
proof -
  from assms(1) have "\<not> startswith (strip p) (fence @ ''json'')"
    by (auto simp: startswith_def fence_def dest: arg_cong [where f = "take 3"])
  with assms show ?thesis
    by (simp add: clean_response_def Let_def strip_idem)
qed

lemma clean_labelled:
  assumes "\<forall>c \<in> set ws1. is_space c" and "\<forall>c \<in> set ws2. is_space c"
  shows "clean_response (fence @ ''json'' @ ws1 @ p @ ws2 @ fence) = strip p"
proof -
  let ?w = "fence @ ''json'' @ ws1 @ p @ ws2 @ fence"
  have w: "strip ?w = ?w"
    by (rule strip_self) (simp add: fence_def fence_not_space)
  have st: "startswith ?w (fence @ ''json'')"
    by (simp add: startswith_def fence_def)
  have dr: "drop 7 ?w = (ws1 @ p @ ws2) @ fence"
    by (simp add: fence_def)
  have en: "endswith ((ws1 @ p @ ws2) @ fence) fence" "drop_last 3 ((ws1 @ p @ ws2) @ fence) = ws1 @ p @ ws2"
    by (simp_all add: endswith_def drop_last_def fence_def)
  show ?thesis
    unfolding clean_response_def Let_def w
    using st dr en strip_pad [OF assms] by simp
qed

lemma not_json_prefix:
  assumes "ws1 \<noteq> [] \<or> \<not> startswith p ''json''" and "p \<noteq> []"
    and "\<forall>c \<in> set ws1. is_space c" and "\<forall>c \<in> set ws2. is_space c"
  shows "\<not> startswith (ws1 @ p @ ws2 @ fence) ''json''"
proof (cases ws1)
  case (Cons c cs)
  with assms(3) have "is_space c" by simp
  then have "c \<noteq> CHR ''j''" by (auto simp: is_space_def whitespace_def)
  with Cons show ?thesis by (simp add: startswith_def)
next
  case Nil
  with assms(1) have nj: "\<not> startswith p ''json''" by simp
  obtain x xs where x: "ws2 @ fence = x # xs" "x \<notin> set ''json''"
  proof (cases ws2)
    case Nil
    then show ?thesis using that [of "CHR 0x60" "[CHR 0x60, CHR 0x60]"] by (simp add: fence_def)
  next
    case (Cons y ys)
    with assms(4) have "is_space y" by simp
    then have "y \<notin> set ''json''" by (auto simp: is_space_def whitespace_def)
    with Cons show ?thesis using that [of y "ys @ fence"] by simp
  qed
  have "\<not> startswith (p @ x # xs) ''json''"
  proof (cases p)
    case Nil
    with assms(2) show ?thesis by simp
  next
    case p1: (Cons a as)
    show ?thesis
    proof (cases as)
      case Nil
      with p1 x(2) show ?thesis by (auto simp: startswith_def)
    next
      case p2: (Cons b bs)
      show ?thesis
      proof (cases bs)
        case Nil
        with p1 p2 x(2) show ?thesis by (auto simp: startswith_def)
      next
        case p3: (Cons c cs)
        show ?thesis
        proof (cases cs)
          case Nil
          with p1 p2 p3 x(2) show ?thesis by (auto simp: startswith_def)
        next
          case (Cons d ds)
          with p1 p2 p3 nj show ?thesis by (auto simp: startswith_def)
        qed
      qed
    qed
  qed
  with Nil x(1) show ?thesis by simp
qed

lemma clean_bare:
  assumes "\<forall>c \<in> set ws1. is_space c" and "\<forall>c \<in> set ws2. is_space c"
    and "ws1 \<noteq> [] \<or> \<not> startswith p ''json''" and "p \<noteq> []"
  shows "clean_response (fence @ ws1 @ p @ ws2 @ fence) = strip p"
proof -
  let ?w = "fence @ ws1 @ p @ ws2 @ fence"
  have w: "strip ?w = ?w"
    by (rule strip_self) (simp add: fence_def fence_not_space)
  have "\<not> startswith (ws1 @ p @ ws2 @ fence) ''json''"
    using assms by (intro not_json_prefix) auto
  then have nst: "\<not> startswith ?w (fence @ ''json'')"
    by (simp add: startswith_def fence_def)
  have st: "startswith ?w fence"
    by (simp add: startswith_def fence_def)
  have dr: "drop 3 ?w = (ws1 @ p @ ws2) @ fence"
    by (simp add: fence_def)
  have en: "endswith ((ws1 @ p @ ws2) @ fence) fence" "drop_last 3 ((ws1 @ p @ ws2) @ fence) = ws1 @ p @ ws2"
    by (simp_all add: endswith_def drop_last_def fence_def)
  show ?thesis
    unfolding clean_response_def Let_def w
    using nst st dr en strip_pad [OF assms(1,2)] by simp
qed

subsection \<open>The parser\<close>

lemma parse_str_cases:
  "(\<exists>m. parse_ai_response jl (PStr s) = Inl (ValueError m))
   \<or> (\<exists>r data. parse_ai_response jl (PStr s) = Inr r \<and> strip s \<noteq> []
         \<and> jl (clean_response s) = Inr data \<and> validate data = Inr r)"
  by (auto simp: parse_ai_response_def decode_and_validate_def split: sum.splits exn.splits)

lemma parse_validate_error:
  assumes "strip s \<noteq> []" and "jl (clean_response s) = Inr data"
    and "validate data = Inl (ValueError m)"
  shows "parse_ai_response jl (PStr s) = Inl (ValueError m)"
proof -
  from assms(1) have "s \<noteq> []" by (auto simp: strip_Nil)
  with assms show ?thesis
    by (simp add: parse_ai_response_def decode_and_validate_def)
qed

lemma check_career_cong:
  "map_of d1 k = map_of d2 k \<Longrightarrow> check_career d1 k = check_career d2 k"
  by (simp add: check_career_def)

lemma check_career_None:
  assumes "check_career d k = None"
  shows "\<exists>cd t. map_of d k = Some (PDict cd)
           \<and> (\<forall>f \<in> set required_career_fields. map_of cd f \<noteq> None)
           \<and> map_of cd ''salary'' = Some (PStr t) \<and> lower t \<in> set tiers"
proof -
  from assms obtain cd where cd: "map_of d k = Some (PDict cd)"
    by (auto simp: check_career_def split: option.splits pyval.splits)
  with assms have miss: "filter (\<lambda>field. map_of cd field = None) required_career_fields = []"
    by (auto simp: check_career_def Let_def split: if_splits)
  then have all: "\<forall>f \<in> set required_career_fields. map_of cd f \<noteq> None"
    by (auto simp: filter_empty_conv)
  then obtain v where v: "map_of cd ''salary'' = Some v"
    by (auto simp: required_career_fields_def)
  from assms cd miss v obtain t where "v = PStr t" "lower t \<in> set tiers"
    by (auto simp: check_career_def Let_def dict_get_def split: pyval.splits if_splits)
  with cd all v show ?thesis by blast
qed

lemma validate_Inr:
  assumes "validate (PDict d) = Inr r"
  shows "(\<forall>f \<in> set required_fields. map_of d f \<noteq> None)
       \<and> check_career d ''career_a'' = None \<and> check_career d ''career_b'' = None"
proof -
  from assms have miss: "filter (\<lambda>field. map_of d field = None) required_fields = []"
    by (auto simp: validate_def Let_def split: if_splits)
  then have "\<forall>f \<in> set required_fields. map_of d f \<noteq> None"
    by (auto simp: filter_empty_conv)
  moreover from assms miss have "check_careers d [''career_a'', ''career_b''] = None"
    by (auto simp: validate_def Let_def split: option.splits)
  then have "check_career d ''career_a'' = None \<and> check_career d ''career_b'' = None"
    by (auto split: option.splits)
  ultimately show ?thesis by blast
qed

lemma missing_single:
  assumes "\<forall>f \<in> set fs. m f \<noteq> None" and "distinct fs" and "k \<in> set fs"
  shows "filter (\<lambda>f. (m(k := None)) f = None) fs = [k]"
  using assms
proof (induction fs)
  case Nil
  then show ?case by simp
next
  case (Cons x xs)
  show ?case
  proof (cases "x = k")
    case True
    with Cons.prems have "k \<notin> set xs" "\<forall>f \<in> set xs. m f \<noteq> None" by auto
    then have "filter (\<lambda>f. (m(k := None)) f = None) xs = []"
      by (auto simp: filter_empty_conv)
    with True show ?thesis by simp
  next
    case False
    with Cons show ?thesis by auto
  qed
qed

text \<open>
  Claim C4: when the decoded payload gives \<^verbatim>\<open>career_a\<close> or \<^verbatim>\<open>career_b\<close> a salary
  that is not, after lower-casing, one of low, medium, high, the parser fails with a
  \<^verbatim>\<open>ValueError\<close>; it never repairs the value.
\<close>

theorem parse_rejects_bad_salary:
  assumes "loads (clean_response s) = Inr (PDict d)"
    and "ck = ''career_a'' \<or> ck = ''career_b''"
    and "map_of d ck = Some (PDict cd)"
    and "map_of cd ''salary'' = Some v"
    and "\<forall>t. v = PStr t \<longrightarrow> lower t \<notin> set tiers"
  shows "\<exists>m. parse_ai_response loads (PStr s) = Inl (ValueError m)"
proof (rule ccontr)
  assume "\<not> ?thesis"
  with parse_str_cases [of loads s] assms(1) obtain r where "validate (PDict d) = Inr r"
    by auto
  from validate_Inr [OF this] assms(2) have "check_career d ck = None"
    by auto
  from check_career_None [OF this] assms(3,4) obtain t where "v = PStr t" "lower t \<in> set tiers"
    by auto
  with assms(5) show False by blast
qed

theorem parse_rejects_bad_salary_witness:
  "table_loads [(sample_text ''85,000'' ''low'' [] [], PDict (sample_payload ''85,000'' ''low''))]
      (clean_response (fenced (sample_text ''85,000'' ''low'' [] []))) = Inr (PDict (sample_payload ''85,000'' ''low''))
   \<and> map_of (sample_payload ''85,000'' ''low'') ''career_a'' = Some (PDict (sample_career ''85,000''))
   \<and> map_of (sample_career ''85,000'') ''salary'' = Some (PStr ''85,000'')
   \<and> lower ''85,000'' \<notin> set tiers
   \<and> (\<exists>m. parse_ai_response
             (table_loads [(sample_text ''85,000'' ''low'' [] [], PDict (sample_payload ''85,000'' ''low''))])
             (PStr (fenced (sample_text ''85,000'' ''low'' [] []))) = Inl (ValueError m))"
proof -
  have h1: "table_loads [(sample_text ''85,000'' ''low'' [] [], PDict (sample_payload ''85,000'' ''low''))]
      (clean_response (fenced (sample_text ''85,000'' ''low'' [] []))) = Inr (PDict (sample_payload ''85,000'' ''low''))"
    by code_simp
  have h3: "map_of (sample_payload ''85,000'' ''low'') ''career_a'' = Some (PDict (sample_career ''85,000''))"
    by (simp add: sample_payload_def)
  have h4: "map_of (sample_career ''85,000'') ''salary'' = Some (PStr ''85,000'')"
    by (simp add: sample_career_def)
  have low: "lower ''85,000'' \<notin> set tiers"
    by code_simp
  then have h5: "\<forall>t. PStr ''85,000'' = PStr t \<longrightarrow> lower t \<notin> set tiers"
    by simp
  have h2: "''career_a'' = ''career_a'' \<or> ''career_a'' = ''career_b''"
    by simp
  from parse_rejects_bad_salary
    [of "table_loads [(sample_text ''85,000'' ''low'' [] [], PDict (sample_payload ''85,000'' ''low''))]"
        "fenced (sample_text ''85,000'' ''low'' [] [])" "sample_payload ''85,000'' ''low''"
        "''career_a''" "sample_career ''85,000''" "PStr ''85,000''"]
    h1 h2 h3 h4 h5 low
  show ?thesis by blast
qed

lemma validate_missing_top:
  assumes "validate (PDict d) = Inr r" and "k \<in> set required_fields"
  shows "validate (PDict (AList.delete k d)) =
           Inl (ValueError (''Missing required fields: '' @ repr_list [k]))"
proof -
  from validate_Inr [OF assms(1)] have "\<forall>f \<in> set required_fields. map_of d f \<noteq> None"
    by blast
  moreover have "distinct required_fields"
    by (simp add: required_fields_def)
  ultimately have "filter (\<lambda>f. ((map_of d)(k := None)) f = None) required_fields = [k]"
    using assms(2) by (intro missing_single)
  then show ?thesis
    by (simp add: validate_def Let_def delete_conv')
qed

lemma validate_missing_career:
  assumes "validate (PDict d) = Inr r" and "k \<in> set required_career_fields"
    and "ck = ''career_a'' \<or> ck = ''career_b''" and "map_of d ck = Some (PDict cd)"
  shows "validate (PDict (AList.update ck (PDict (AList.delete k cd)) d)) =
           Inl (ValueError (''Missing fields in '' @ ck @ '': '' @ repr_list [k]))"
proof -
  let ?d = "AList.update ck (PDict (AList.delete k cd)) d"
  note v = validate_Inr [OF assms(1)]
  from v assms(3) have "check_career d ck = None" by auto
  from check_career_None [OF this] assms(4)
  have "\<forall>f \<in> set required_career_fields. map_of cd f \<noteq> None" by auto
  moreover have "distinct required_career_fields"
    by (simp add: required_career_fields_def)
  ultimately have "filter (\<lambda>f. ((map_of cd)(k := None)) f = None) required_career_fields = [k]"
    using assms(2) by (intro missing_single)
  then have ck: "check_career ?d ck =
      Some (ValueError (''Missing fields in '' @ ck @ '': '' @ repr_list [k]))"
    by (simp add: check_career_def update_conv' delete_conv' Let_def)
  from v have "filter (\<lambda>field. map_of ?d field = None) required_fields = []"
    by (auto simp: filter_empty_conv update_conv')
  moreover have "check_careers ?d [''career_a'', ''career_b''] =
      Some (ValueError (''Missing fields in '' @ ck @ '': '' @ repr_list [k]))"
  proof (cases "ck = ''career_a''")
    case True
    with ck show ?thesis by simp
  next
    case False
    with assms(3) have b: "ck = ''career_b''" by simp
    have "check_career ?d ''career_a'' = check_career d ''career_a''"
      by (rule check_career_cong) (simp add: update_conv' b)
    with v ck b show ?thesis by simp
  qed
  ultimately show ?thesis
    by (simp add: validate_def Let_def)
qed

text \<open>
  Claim C5: take a payload that passes validation. With one of the three top-level
  keys deleted, or with one of the six career keys deleted from \<^verbatim>\<open>career_a\<close> or from
  \<^verbatim>\<open>career_b\<close>, parsing a text that decodes to it fails with a \<^verbatim>\<open>ValueError\<close> whose
  message contains the deleted key.
\<close>

theorem parse_missing_key:
  assumes "validate (PDict d) = Inr r"
  shows "(k1 \<in> set required_fields \<and> strip s1 \<noteq> []
            \<and> loads1 (clean_response s1) = Inr (PDict (AList.delete k1 d))
          \<longrightarrow> (\<exists>m. parse_ai_response loads1 (PStr s1) = Inl (ValueError m)
                 \<and> m = ''Missing required fields: '' @ repr_list [k1] \<and> sublist k1 m))
       \<and> (k2 \<in> set required_career_fields \<and> (ck = ''career_a'' \<or> ck = ''career_b'')
            \<and> map_of d ck = Some (PDict cd) \<and> strip s2 \<noteq> []
            \<and> loads2 (clean_response s2) = Inr (PDict (AList.update ck (PDict (AList.delete k2 cd)) d))
          \<longrightarrow> (\<exists>m. parse_ai_response loads2 (PStr s2) = Inl (ValueError m)
                 \<and> m = ''Missing fields in '' @ ck @ '': '' @ repr_list [k2] \<and> sublist k2 m))"
proof -
  have names: "sublist k (pre @ repr_list [k])" for k pre
  proof -
    have "pre @ repr_list [k] = (pre @ ''['' @ [CHR 0x27]) @ k @ ([CHR 0x27] @ '']'')"
      by (simp add: repr_list_def repr_str_def)
    then show ?thesis by (simp only: sublist_appendI)
  qed
  have "\<exists>m. parse_ai_response loads1 (PStr s1) = Inl (ValueError m)
          \<and> m = ''Missing required fields: '' @ repr_list [k1] \<and> sublist k1 m"
    if "k1 \<in> set required_fields" "strip s1 \<noteq> []"
       "loads1 (clean_response s1) = Inr (PDict (AList.delete k1 d))"
    using parse_validate_error [of s1 loads1 "PDict (AList.delete k1 d)"
        "''Missing required fields: '' @ repr_list [k1]"]
      that validate_missing_top [OF assms that(1)] names
    by blast
  moreover have "\<exists>m. parse_ai_response loads2 (PStr s2) = Inl (ValueError m)
          \<and> m = ''Missing fields in '' @ ck @ '': '' @ repr_list [k2] \<and> sublist k2 m"
    if "k2 \<in> set required_career_fields" "ck = ''career_a'' \<or> ck = ''career_b''"
       "map_of d ck = Some (PDict cd)" "strip s2 \<noteq> []"
       "loads2 (clean_response s2) = Inr (PDict (AList.update ck (PDict (AList.delete k2 cd)) d))"
    using parse_validate_error [of s2 loads2
        "PDict (AList.update ck (PDict (AList.delete k2 cd)) d)"
        "''Missing fields in '' @ ck @ '': '' @ repr_list [k2]"]
      that validate_missing_career [OF assms that(1,2,3)]
      names [of k2 "''Missing fields in '' @ ck @ '': ''"]
    by auto
  ultimately show ?thesis by blast
qed

theorem parse_missing_key_witness:
  "validate (PDict (sample_payload ''High'' ''low'')) = Inr (sample_result ''High'' ''low'')
   \<and> parse_ai_response
        (table_loads [(sample_text ''High'' ''low'' [''decision_guide''] [],
                       PDict (AList.delete ''decision_guide'' (sample_payload ''High'' ''low'')))])
        (PStr (fenced (sample_text ''High'' ''low'' [''decision_guide''] [])))
      = Inl (ValueError (''Missing required fields: '' @ repr_list [''decision_guide'']))
   \<and> parse_ai_response
        (table_loads [(sample_text ''High'' ''low'' [] [''salary''],
                       PDict (AList.update ''career_b'' (PDict (AList.delete ''salary'' (sample_career ''low'')))
                                (sample_payload ''High'' ''low'')))])
        (PStr (fenced (sample_text ''High'' ''low'' [] [''salary''])))
      = Inl (ValueError (''Missing fields in career_b: '' @ repr_list [''salary'']))"
proof -
  let ?s1 = "fenced (sample_text ''High'' ''low'' [''decision_guide''] [])"
  let ?l1 = "table_loads [(sample_text ''High'' ''low'' [''decision_guide''] [],
                       PDict (AList.delete ''decision_guide'' (sample_payload ''High'' ''low'')))]"
  let ?s2 = "fenced (sample_text ''High'' ''low'' [] [''salary''])"
  let ?l2 = "table_loads [(sample_text ''High'' ''low'' [] [''salary''],
                       PDict (AList.update ''career_b'' (PDict (AList.delete ''salary'' (sample_career ''low'')))
                                (sample_payload ''High'' ''low'')))]"
  have h: "validate (PDict (sample_payload ''High'' ''low'')) = Inr (sample_result ''High'' ''low'')"
    by code_simp
  have a: "''decision_guide'' \<in> set required_fields" "strip ?s1 \<noteq> []"
    "?l1 (clean_response ?s1) = Inr (PDict (AList.delete ''decision_guide'' (sample_payload ''High'' ''low'')))"
    by code_simp+
  have b: "''salary'' \<in> set required_career_fields"
    "map_of (sample_payload ''High'' ''low'') ''career_b'' = Some (PDict (sample_career ''low''))"
    "strip ?s2 \<noteq> []"
    "?l2 (clean_response ?s2) = Inr (PDict (AList.update ''career_b''
        (PDict (AList.delete ''salary'' (sample_career ''low''))) (sample_payload ''High'' ''low'')))"
    by code_simp+
  from parse_missing_key [OF h, of "''decision_guide''" ?s1 ?l1 "''salary''" "''career_b''"
      "sample_career ''low''" ?s2 ?l2] h a b
  show ?thesis by auto
qed

text \<open>
  Claim C8: let \<open>p\<close> be a JSON payload text that parses successfully; being the JSON
  text itself, its trimmed form neither begins nor ends with a fence. Wrapped in a
  leading \<^verbatim>\<open>json\<close>-labelled fence and a trailing fence, with any blanks or line
  breaks between fences and payload, it parses to the same result; the same holds for
  a bare leading fence, provided the fence is followed by a blank or line break or
  the payload does not begin with the letters \<^verbatim>\<open>json\<close> (which no JSON text does).
\<close>

theorem parse_fence_invariant:
  assumes "parse_ai_response loads (PStr p) = Inr r"
    and "\<not> startswith (strip p) fence" and "\<not> endswith (strip p) fence"
    and "\<forall>c \<in> set ws1. is_space c" and "\<forall>c \<in> set ws2. is_space c"
  shows "parse_ai_response loads (PStr (fence @ ''json'' @ ws1 @ p @ ws2 @ fence)) =
           parse_ai_response loads (PStr p)
       \<and> (ws1 \<noteq> [] \<or> \<not> startswith p ''json'' \<longrightarrow>
            parse_ai_response loads (PStr (fence @ ws1 @ p @ ws2 @ fence)) =
              parse_ai_response loads (PStr p))"
proof -
  have same: "parse_ai_response loads (PStr w) = parse_ai_response loads (PStr p)"
    if "strip w = w" "w \<noteq> []" "clean_response w = clean_response p" for w
  proof -
    from assms(1) have "strip p \<noteq> []" "p \<noteq> []"
      by (auto simp: parse_ai_response_def split: if_splits)
    with that show ?thesis
      by (simp add: parse_ai_response_def decode_and_validate_def)
  qed
  from assms(1) have p: "p \<noteq> []"
    by (auto simp: parse_ai_response_def split: if_splits)
  have self: "strip (fence @ x @ fence) = fence @ x @ fence" for x
    by (rule strip_self) (simp add: fence_def fence_not_space)
  have ne: "fence @ x \<noteq> []" for x :: string
    by (simp add: fence_def)
  have "parse_ai_response loads (PStr (fence @ ''json'' @ ws1 @ p @ ws2 @ fence)) =
           parse_ai_response loads (PStr p)"
  proof (rule same)
    show "strip (fence @ ''json'' @ ws1 @ p @ ws2 @ fence) = fence @ ''json'' @ ws1 @ p @ ws2 @ fence"
      using self [of "''json'' @ ws1 @ p @ ws2"] by simp
    show "fence @ ''json'' @ ws1 @ p @ ws2 @ fence \<noteq> []"
      by (rule ne)
    show "clean_response (fence @ ''json'' @ ws1 @ p @ ws2 @ fence) = clean_response p"
      by (simp only: clean_labelled [OF assms(4,5)] clean_unfenced [OF assms(2,3)])
  qed
  moreover have "parse_ai_response loads (PStr (fence @ ws1 @ p @ ws2 @ fence)) =
              parse_ai_response loads (PStr p)"
    if "ws1 \<noteq> [] \<or> \<not> startswith p ''json''"
  proof (rule same)
    show "strip (fence @ ws1 @ p @ ws2 @ fence) = fence @ ws1 @ p @ ws2 @ fence"
      using self [of "ws1 @ p @ ws2"] by simp
    show "fence @ ws1 @ p @ ws2 @ fence \<noteq> []"
      by (rule ne)
    show "clean_response (fence @ ws1 @ p @ ws2 @ fence) = clean_response p"
      by (simp only: clean_bare [OF assms(4,5) that p] clean_unfenced [OF assms(2,3)])
  qed
  ultimately show ?thesis by blast
qed

theorem parse_fence_invariant_witness:
  "parse_ai_response (json_loads ollama_world) (PStr (sample_text ''High'' ''low'' [] []))
     = Inr (sample_result ''High'' ''low'')
   \<and> \<not> startswith (strip (sample_text ''High'' ''low'' [] [])) fence
   \<and> \<not> endswith (strip (sample_text ''High'' ''low'' [] [])) fence
   \<and> is_space (CHR 0x0A)
   \<and> parse_ai_response (json_loads ollama_world)
        (PStr (fence @ ''json'' @ [CHR 0x0A] @ sample_text ''High'' ''low'' [] [] @ [CHR 0x0A] @ fence))
      = Inr (sample_result ''High'' ''low'')
   \<and> parse_ai_response (json_loads ollama_world)
        (PStr (fence @ [CHR 0x0A] @ sample_text ''High'' ''low'' [] [] @ [CHR 0x0A] @ fence))
      = Inr (sample_result ''High'' ''low'')"
proof -
  let ?p = "sample_text ''High'' ''low'' [] []"
  have h1: "parse_ai_response (json_loads ollama_world) (PStr ?p) = Inr (sample_result ''High'' ''low'')"
    by code_simp
  have h2: "\<not> startswith (strip ?p) fence" "\<not> endswith (strip ?p) fence"
    by code_simp+
  have sp: "is_space (CHR 0x0A)"
    by (simp add: is_space_def whitespace_def)
  then have h4: "\<forall>c \<in> set [CHR 0x0A]. is_space c"
    by simp
  from parse_fence_invariant [OF h1 h2 h4 h4] h1 h2 sp show ?thesis by simp
qed

end
